theory Spec2Isabelle
  imports Complex_Main "HOL-Library.Sublist"
begin

section \<open>JavaScript values\<close>

text \<open>
  The job handles plain JSON data: parameters, header objects, parsed JSON texts and the
  result objects it returns. A value is one of JavaScript's data values; an object is the
  list of its own properties. Numbers are carried as exact rationals (every finite double
  is one); the handlers only ever test a number for zero and print a status code.
  Strings are byte strings; every pattern the handlers search for is ASCII.
  Prototypes are not modelled: an object is its own properties, and the property name
  \<open>__proto__\<close> is treated like any other.
\<close>

datatype js = JUndefined | JNull | JBool bool | JNum rat | JStr string
  | JArr "js list" | JObj "(string \<times> js) list"

type_synonym obj = "(string \<times> js) list"

text \<open>Truthiness, as \<open>if (x)\<close>, \<open>!x\<close>, \<open>x || y\<close> and \<open>!!x\<close> read it.\<close>

fun truthy :: "js \<Rightarrow> bool" where
  "truthy JUndefined = False"
| "truthy JNull = False"
| "truthy (JBool b) = b"
| "truthy (JNum n) = (n \<noteq> 0)"
| "truthy (JStr s) = (s \<noteq> [])"
| "truthy (JArr xs) = True"
| "truthy (JObj kvs) = True"

text \<open>
  A parameter the schema declares as an optional string is \<open>None\<close> when the caller left
  it out (\<open>undefined\<close>). \<open>truthy_val\<close> gives the string when it is truthy, that is present
  and not empty.
\<close>

fun to_js :: "string option \<Rightarrow> js" where
  "to_js None = JUndefined"
| "to_js (Some s) = JStr s"

fun truthy_val :: "string option \<Rightarrow> string option" where
  "truthy_val None = None"
| "truthy_val (Some s) = (if s = [] then None else Some s)"

text \<open>\<open>a || b\<close> on optional strings: \<open>a\<close> when truthy, else \<open>b\<close> whatever it is.\<close>

definition js_or :: "string option \<Rightarrow> string option \<Rightarrow> string option" where
  "js_or a b = (case truthy_val a of Some s \<Rightarrow> Some s | None \<Rightarrow> b)"

text \<open>Property read \<open>o[k]\<close> (\<open>undefined\<close> when missing) and write \<open>o[k] = v\<close>.\<close>

definition get_prop :: "obj \<Rightarrow> string \<Rightarrow> js" where
  "get_prop ob k = (case map_of ob k of None \<Rightarrow> JUndefined | Some v \<Rightarrow> v)"

fun set_prop :: "obj \<Rightarrow> string \<Rightarrow> js \<Rightarrow> obj" where
  "set_prop [] k v = [(k, v)]"
| "set_prop ((k', v') # ps) k v = (if k' = k then (k, v) # ps else (k', v') # set_prop ps k v)"

text \<open>
  Number to string, as a template literal prints a non-negative integer
  (decimal digits; JavaScript agrees for every integer below \<open>10\<^sup>2\<^sup>1\<close>).
\<close>

fun digits :: "nat \<Rightarrow> string" where
  "digits n = (if n < 10 then [''0123456789'' ! n]
               else digits (n div 10) @ [''0123456789'' ! (n mod 10)])"

declare digits.simps [simp del]

text \<open>Reading decimal digits back, to check \<open>digits\<close> against.\<close>

definition digit_value :: "char \<Rightarrow> nat" where
  "digit_value c = of_char c - 48"

definition decimal_value :: "string \<Rightarrow> nat" where
  "decimal_value s = foldl (\<lambda>a c. 10 * a + digit_value c) 0 s"

text \<open>
  \<open>Object.assign(target, source)\<close> copies the own enumerable properties of the source in
  order: the members of an object, the elements of an array and the characters of a
  string under their indices, nothing for any other value.
\<close>

fun own_props :: "js \<Rightarrow> obj" where
  "own_props (JObj kvs) = kvs"
| "own_props (JArr xs) = zip (map digits [0..<length xs]) xs"
| "own_props (JStr s) = zip (map digits [0..<length s]) (map (\<lambda>c. JStr [c]) s)"
| "own_props v = []"

definition Object_assign :: "obj \<Rightarrow> js \<Rightarrow> obj" where
  "Object_assign target source = fold (\<lambda>(k, v) t. set_prop t k v) (own_props source) target"

text \<open>\<open>String.prototype.includes\<close>: a contiguous, case-sensitive substring search.\<close>

fun starts_with :: "string \<Rightarrow> string \<Rightarrow> bool" where
  "starts_with s [] = True"
| "starts_with [] (p # ps) = False"
| "starts_with (c # cs) (p # ps) = (c = p \<and> starts_with cs ps)"

fun str_includes :: "string \<Rightarrow> string \<Rightarrow> bool" where
  "str_includes [] pat = (pat = [])"
| "str_includes (c # cs) pat = (starts_with (c # cs) pat \<or> str_includes cs pat)"

text \<open>\<open>String.prototype.toUpperCase\<close> on ASCII text (HTTP method names).\<close>

definition upper_char :: "char \<Rightarrow> char" where
  "upper_char c =
     (case map_of (zip ''abcdefghijklmnopqrstuvwxyz'' ''ABCDEFGHIJKLMNOPQRSTUVWXYZ'') c of
        None \<Rightarrow> c | Some u \<Rightarrow> u)"

definition toUpperCase :: "string \<Rightarrow> string" where
  "toUpperCase s = map upper_char s"

text \<open>\<open>s.replace(/\/$/, '')\<close> and \<open>s.replace(/^\//, '')\<close>: one slash, at the end or the start.\<close>

definition remove_trailing_slash :: "string \<Rightarrow> string" where
  "remove_trailing_slash s = (if s \<noteq> [] \<and> last s = CHR ''/'' then butlast s else s)"

fun remove_leading_slash :: "string \<Rightarrow> string" where
  "remove_leading_slash [] = []"
| "remove_leading_slash (c # cs) = (if c = CHR ''/'' then cs else c # cs)"

section \<open>The platform and the handlers' interface\<close>

text \<open>
  A thrown \<open>Error\<close> is a value carrying its message. A handler is an async function: it
  either resolves with a result object or rejects with an error, and on the way it may
  wait (\<open>setTimeout\<close>) and hand a request to the HTTP transport. These two effects are
  recorded in order; console output is left out.
\<close>

datatype js_error = Error (message: string)

record request_options =
  opt_method :: string
  opt_headers :: obj
  opt_body :: "string option"

record response =
  statusCode :: nat
  res_headers :: js
  res_body :: string

datatype event = is_Sleep: Sleep nat | is_Request: Request string request_options

type_synonym outcome = "event list \<times> (js_error + obj)"

text \<open>
  What the runtime supplies: \<open>JSON.parse\<close> (a \<open>SyntaxError\<close> or the value),
  \<open>JSON.stringify\<close>, the HTTP transport (\<open>makeHttpRequest\<close> in the bundle, \<open>fetch\<close> in the
  script: it rejects, or resolves with the status code, headers and body text) and the
  clock reading \<open>new Date().toISOString()\<close>. The bundle's \<open>makeHttpRequest\<close> (lines 19-102)
  wraps Node's \<open>http\<close> and \<open>https\<close> modules in a promise; what it resolves or rejects
  with is the transport's answer here. Each handler call sends at most one request, so
  that answer is a function of the request.
\<close>

record platform =
  JSON_parse :: "string \<Rightarrow> js_error + js"
  JSON_stringify :: "js \<Rightarrow> string"
  transport :: "string \<Rightarrow> request_options \<Rightarrow> js_error + response"
  toISOString :: string

text \<open>
  The parameters of the bundle's handlers, typed as its JSDoc and the job's schema declare
  them; \<open>http_method\<close> is the parameter \<open>method\<close>. The error handler receives them with
  the error, the halt handler with the reason. Of the execution context the handlers read
  \<open>env\<close>, \<open>secrets\<close> and \<open>partial_results\<close>.
\<close>

record params =
  http_method :: "string option"
  address :: "string option"
  addressSuffix :: "string option"
  requestBody :: "string option"
  requestHeaders :: "string option"
  acceptedStatusCodes :: "int list option"

record error_params = params +
  error :: js_error

record halt_params = params +
  reason :: "string option"

record exec_context =
  env :: "string \<rightharpoonup> string"
  secrets :: "string \<rightharpoonup> string"
  partial_results :: js

section \<open>The bundled job: dist/index.js\<close>

text \<open>
  Lines 131-147: the required parameters and the target URL. The method and the URL are
  what the rest of the handler goes on with.
\<close>

definition target_url :: "params \<Rightarrow> js_error + (string \<times> string)" where
  "target_url p =
     (case truthy_val (http_method p) of
        None \<Rightarrow> Inl (Error ''HTTP method is required'')
      | Some m \<Rightarrow>
          (case truthy_val (address p) of
             None \<Rightarrow> Inl (Error ''address parameter is required'')
           | Some addressOverride \<Rightarrow>
               (case truthy_val (addressSuffix p) of
                  None \<Rightarrow> Inr (m, addressOverride)
                | Some sfx \<Rightarrow>
                    Inr (m, remove_trailing_slash addressOverride @ ''/'' @
                            remove_leading_slash sfx))))"

text \<open>Lines 160-169: the body, validated as JSON and attached as the original string.\<close>

definition add_body :: "platform \<Rightarrow> params \<Rightarrow> request_options \<Rightarrow> js_error + request_options" where
  "add_body pf p opts =
     (case truthy_val (requestBody p) of
        None \<Rightarrow> Inr opts
      | Some rb \<Rightarrow>
          (case JSON_parse pf rb of
             Inl e \<Rightarrow> Inl (Error (''Invalid JSON in requestBody: '' @ message e))
           | Inr v \<Rightarrow>
               Inr (opts\<lparr>opt_body := Some rb,
                         opt_headers := set_prop (opt_headers opts) ''Content-Type''
                                          (JStr ''application/json'')\<rparr>)))"

text \<open>Lines 172-179: the custom headers, parsed and merged over what is there.\<close>

definition add_headers :: "platform \<Rightarrow> params \<Rightarrow> request_options \<Rightarrow> js_error + request_options" where
  "add_headers pf p opts =
     (case truthy_val (requestHeaders p) of
        None \<Rightarrow> Inr opts
      | Some rh \<Rightarrow>
          (case JSON_parse pf rh of
             Inl e \<Rightarrow> Inl (Error (''Invalid JSON in requestHeaders: '' @ message e))
           | Inr customHeaders \<Rightarrow>
               Inr (opts\<lparr>opt_headers := Object_assign (opt_headers opts) customHeaders\<rparr>)))"

text \<open>Lines 182-188 (and lines 95-101 of the script): one authentication header.\<close>

definition apply_auth :: "(string \<rightharpoonup> string) \<Rightarrow> obj \<Rightarrow> obj" where
  "apply_auth sec headers =
     (case truthy_val (sec ''AUTHORIZATION_HEADER'') of
        Some a \<Rightarrow> set_prop headers ''Authorization'' (JStr a)
      | None \<Rightarrow>
          (case truthy_val (sec ''API_KEY'') of
             Some k \<Rightarrow> set_prop headers ''X-API-Key'' (JStr k)
           | None \<Rightarrow>
               (case truthy_val (sec ''BEARER_TOKEN'') of
                  Some t \<Rightarrow> set_prop headers ''Authorization'' (JStr (''Bearer '' @ t))
                | None \<Rightarrow> headers)))"

text \<open>Lines 152-188: the request options, in the order the code builds them.\<close>

definition build_options :: "platform \<Rightarrow> params \<Rightarrow> exec_context \<Rightarrow> string \<Rightarrow> js_error + request_options" where
  "build_options pf p ctx m =
     (case add_body pf p
             \<lparr>opt_method = toUpperCase m,
              opt_headers = [(''User-Agent'', JStr ''sgnl-generic-webhook/1.0.0'')],
              opt_body = None\<rparr> of
        Inl e \<Rightarrow> Inl e
      | Inr opts1 \<Rightarrow>
          (case add_headers pf p opts1 of
             Inl e \<Rightarrow> Inl e
           | Inr opts2 \<Rightarrow>
               Inr (opts2\<lparr>opt_headers := apply_auth (secrets ctx) (opt_headers opts2)\<rparr>)))"

text \<open>Lines 209-238: the result object and the classification of the status code.\<close>

definition accepted_codes :: "int list option \<Rightarrow> int list" where
  "accepted_codes a = (case a of None \<Rightarrow> [] | Some cs \<Rightarrow> cs)"

definition job_result :: "platform \<Rightarrow> params \<Rightarrow> string \<Rightarrow> string \<Rightarrow> response \<Rightarrow> obj" where
  "job_result pf p m targetUrl res =
     (let jobResult =
            [(''status_code'', JNum (of_nat (statusCode res))),
             (''body'', JStr (res_body res)),
             (''headers'', res_headers res),
             (''url'', JStr targetUrl),
             (''method'', JStr (toUpperCase m)),
             (''processed_at'', JStr (toISOString pf))];
          isAcceptedStatus = (int (statusCode res) \<in> set (accepted_codes (acceptedStatusCodes p)));
          isStandardSuccess = (200 \<le> statusCode res \<and> statusCode res < 300)
      in if isAcceptedStatus \<or> isStandardSuccess
         then (''status'', JStr ''success'') # jobResult
         else (''status'', JStr ''http_error'') #
              (''error'', JStr (''HTTP request failed with status '' @ digits (statusCode res))) #
              jobResult)"

text \<open>Lines 117-239: \<open>webhookJob.invoke\<close>.\<close>

definition webhookJob_invoke :: "platform \<Rightarrow> params \<Rightarrow> exec_context \<Rightarrow> outcome" where
  "webhookJob_invoke pf p ctx =
     (case target_url p of
        Inl e \<Rightarrow> ([], Inl e)
      | Inr (m, targetUrl) \<Rightarrow>
          (case build_options pf p ctx m of
             Inl e \<Rightarrow> ([], Inl e)
           | Inr requestOptions \<Rightarrow>
               ([Request targetUrl requestOptions],
                case transport pf targetUrl requestOptions of
                  Inl e \<Rightarrow> Inl (Error (''HTTP request failed: '' @ message e))
                | Inr res \<Rightarrow> Inr (job_result pf p m targetUrl res))))"

text \<open>
  Lines 247-304: \<open>webhookJob.error\<close>. The parameters are the original ones plus the
  error; \<open>delete originalParams.error\<close> leaves the original ones.
\<close>

definition recovery_result :: "platform \<Rightarrow> error_params \<Rightarrow> exec_context \<Rightarrow> string \<Rightarrow> string \<Rightarrow> string \<Rightarrow> obj" where
  "recovery_result pf p ctx st how advice =
     [(''status'', JStr st),
      (''method'', to_js (http_method p)),
      (''url'', to_js (js_or (address p) (env ctx ''WEBHOOK_BASE_URL''))),
      (''recovery_method'', JStr how),
      (''original_error'', JStr (message (error p))),
      (''recovered_at'', JStr (toISOString pf)),
      (''recommendation'', JStr advice)]"

definition webhookJob_error :: "platform \<Rightarrow> error_params \<Rightarrow> exec_context \<Rightarrow> outcome" where
  "webhookJob_error pf p ctx =
     (let msg = message (error p) in
      if str_includes msg ''rate limit'' \<or> str_includes msg ''429'' then
        (case webhookJob_invoke pf (params.truncate p) ctx of
           (tr, Inl retryError) \<Rightarrow>
             (Sleep 5000 # tr,
              Inl (Error (''Retry failed after rate limit backoff: '' @ message retryError)))
         | (tr, Inr r) \<Rightarrow> (Sleep 5000 # tr, Inr r))
      else if str_includes msg ''timeout'' \<or> str_includes msg ''ETIMEDOUT'' then
        ([], Inr (recovery_result pf p ctx ''timeout_error'' ''timeout_handling''
                    ''Consider increasing timeout or checking network connectivity''))
      else if str_includes msg ''ENOTFOUND'' \<or> str_includes msg ''DNS'' then
        ([], Inr (recovery_result pf p ctx ''dns_error'' ''dns_failure_handling''
                    ''Verify the target URL is correct and accessible''))
      else ([], Inl (Error (''Unrecoverable webhook error: '' @ msg))))"

text \<open>Lines 312-338: \<open>webhookJob.halt\<close>.\<close>

definition webhookJob_halt :: "platform \<Rightarrow> halt_params \<Rightarrow> exec_context \<Rightarrow> outcome" where
  "webhookJob_halt pf p ctx =
     (let targetUrl = js_or (address p) (env ctx ''WEBHOOK_BASE_URL'') in
      ([], Inr [(''status'', JStr ''halted''),
                (''method'', to_js (js_or (http_method p) (Some ''unknown''))),
                (''url'', to_js (js_or targetUrl (Some ''unknown''))),
                (''reason'', to_js (reason p)),
                (''halted_at'', JStr (toISOString pf)),
                (''cleanup_completed'', JBool True),
                (''partial_results_logged'', JBool (truthy (partial_results ctx)))]))"

section \<open>The script: src/script.mjs\<close>

text \<open>
  The script reads \<open>requestBody\<close> and \<open>requestHeaders\<close> as whatever values they are
  (\<open>typeof requestHeaders === 'string' ? JSON.parse(requestHeaders) : requestHeaders\<close>),
  so here the two parameters are values, \<open>JUndefined\<close> when left out.
\<close>

record script_params =
  s_method :: "string option"
  s_address :: "string option"
  s_requestBody :: js
  s_requestHeaders :: js
  s_acceptedStatusCodes :: "int list option"

record script_error_params = script_params +
  s_error :: js_error

record script_halt_params = script_params +
  s_reason :: "string option"

text \<open>
  Lines 17-54: \<open>makeWebhookRequest\<close>. The header object it completes is the one the
  request options already hold, so the request carries the added \<open>Content-Type\<close>.
\<close>

definition makeWebhookRequest ::
    "platform \<Rightarrow> string \<Rightarrow> string \<Rightarrow> obj \<Rightarrow> string option \<Rightarrow> int list \<Rightarrow> outcome" where
  "makeWebhookRequest pf m url headers body accepted =
     (let attach = (truthy_val body \<noteq> None \<and>
                    toUpperCase m \<in> set [''POST'', ''PUT'', ''PATCH'', ''DELETE'']);
          headers' = (if attach \<and> \<not> truthy (get_prop headers ''Content-Type'') \<and>
                         \<not> truthy (get_prop headers ''content-type'')
                      then set_prop headers ''Content-Type'' (JStr ''application/json'')
                      else headers);
          requestOptions = \<lparr>opt_method = m, opt_headers = headers',
                            opt_body = (if attach then body else None)\<rparr>
      in ([Request url requestOptions],
          case transport pf url requestOptions of
            Inl e \<Rightarrow> Inl e
          | Inr res \<Rightarrow>
              (let isSuccess = ((200 \<le> statusCode res \<and> statusCode res \<le> 299) \<or>
                                int (statusCode res) \<in> set accepted)
               in Inr [(''statusCode'', JNum (of_nat (statusCode res))),
                       (''body'', JStr (res_body res)),
                       (''success'', JBool isSuccess),
                       (''executedAt'', JStr (toISOString pf))])))"

text \<open>Lines 83-92: the custom headers, parsed only when they are a string.\<close>

fun custom_headers :: "platform \<Rightarrow> js \<Rightarrow> js_error + js" where
  "custom_headers pf (JStr s) = JSON_parse pf s"
| "custom_headers pf v = Inr v"

definition script_headers :: "platform \<Rightarrow> js \<Rightarrow> js_error + obj" where
  "script_headers pf rh =
     (let headers = [(''User-Agent'', JStr ''sgnl-generic-webhook/1.0.0'')] in
      if truthy rh then
        (case custom_headers pf rh of
           Inl e \<Rightarrow> Inl (Error (''Invalid JSON in requestHeaders: '' @ message e))
         | Inr customHeaders \<Rightarrow> Inr (Object_assign headers customHeaders))
      else Inr headers)"

text \<open>Lines 104-107: the body, a string as it is and anything else serialised.\<close>

fun body_text :: "platform \<Rightarrow> js \<Rightarrow> string" where
  "body_text pf (JStr s) = s"
| "body_text pf v = JSON_stringify pf v"

definition script_body :: "platform \<Rightarrow> js \<Rightarrow> string option" where
  "script_body pf rb = (if truthy rb then Some (body_text pf rb) else None)"

text \<open>Lines 63-115: \<open>invoke\<close>.\<close>

definition script_invoke :: "platform \<Rightarrow> script_params \<Rightarrow> exec_context \<Rightarrow> outcome" where
  "script_invoke pf p ctx =
     (case truthy_val (s_method p) of
        None \<Rightarrow> ([], Inl (Error ''HTTP method is required''))
      | Some m \<Rightarrow>
          (case truthy_val (s_address p) of
             None \<Rightarrow> ([], Inl (Error ''address parameter is required''))
           | Some a \<Rightarrow>
               (case script_headers pf (s_requestHeaders p) of
                  Inl e \<Rightarrow> ([], Inl e)
                | Inr headers \<Rightarrow>
                    makeWebhookRequest pf m a (apply_auth (secrets ctx) headers)
                      (script_body pf (s_requestBody p))
                      (accepted_codes (s_acceptedStatusCodes p)))))"

text \<open>Lines 123-140 and 148-161: \<open>error\<close> throws what it was given, \<open>halt\<close> reports.\<close>

definition script_error :: "platform \<Rightarrow> script_error_params \<Rightarrow> exec_context \<Rightarrow> outcome" where
  "script_error pf p ctx = ([], Inl (s_error p))"

definition script_halt :: "platform \<Rightarrow> script_halt_params \<Rightarrow> exec_context \<Rightarrow> outcome" where
  "script_halt pf p ctx =
     ([], Inr [(''status'', JStr ''halted''),
               (''reason'', to_js (s_reason p)),
               (''halted_at'', JStr (toISOString pf))])"

section \<open>A test platform\<close>

text \<open>
  Concrete runs need a concrete platform. As the repository's tests replace \<open>fetch\<close> by a
  mock, this one answers by URL. Its \<open>JSON.parse\<close> is a table of the texts used below:
  three JSON objects with their values, and the two malformed texts, the tests'
  \<open>{"invalid": json}\<close> and the empty string, with the parser's complaint. The context is
  the tests' \<open>mockContext\<close>.
\<close>

definition test_parse :: "string \<Rightarrow> js_error + js" where
  \<open>test_parse s =
     (case map_of
        [(''{"test": true}'', Inr (JObj [(''test'', JBool True)])),
         (''{"content-type": "text/plain"}'',
            Inr (JObj [(''content-type'', JStr ''text/plain'')])),
         (''{"Content-Type": "text/plain", "X-Custom": "value"}'',
            Inr (JObj [(''Content-Type'', JStr ''text/plain''),
                       (''X-Custom'', JStr ''value'')])),
         (''{"invalid": json}'', Inl (Error ''Unexpected token j in JSON at position 12'')),
         ([], Inl (Error ''Unexpected end of JSON input''))] s of
        Some r \<Rightarrow> r
      | None \<Rightarrow> Inl (Error ''Unexpected token''))\<close>

definition test_stringify :: "js \<Rightarrow> string" where
  \<open>test_stringify v =
     (if v = JObj [(''test'', JBool True)] then ''{"test":true}''
      else if v = JNum 7 then ''7'' else ''null'')\<close>

definition test_transport :: "string \<Rightarrow> request_options \<Rightarrow> js_error + response" where
  \<open>test_transport url opts =
     (if url = ''https://api.example.com/users'' then
        Inr \<lparr>statusCode = 200,
             res_headers = JObj [(''content-type'', JStr ''application/json'')],
             res_body = ''{"success": true}''\<rparr>
      else if url = ''https://api.example.com/users/123'' then
        Inr \<lparr>statusCode = 404,
             res_headers = JObj [(''content-type'', JStr ''text/plain'')],
             res_body = ''Not Found''\<rparr>
      else if url = ''https://down.example.com'' then
        Inl (Error ''getaddrinfo ENOTFOUND down.example.com'')
      else
        Inr \<lparr>statusCode = 500,
             res_headers = JObj [(''content-type'', JStr ''text/plain'')],
             res_body = ''Internal Server Error''\<rparr>)\<close>

definition test_platform :: platform where
  "test_platform =
     \<lparr>JSON_parse = test_parse, JSON_stringify = test_stringify,
      transport = test_transport, toISOString = ''2024-01-15T10:30:00.000Z''\<rparr>"

definition mockContext :: exec_context where
  "mockContext =
     \<lparr>env = [''WEBHOOK_BASE_URL'' \<mapsto> ''https://api.example.com''],
      secrets = [''API_KEY'' \<mapsto> ''test-api-key-123456''],
      partial_results = JObj []\<rparr>"

text \<open>
  Inputs for concrete runs: a request with a method and an address and nothing else, and
  the parameters the runner hands to the error handler after a failure
  (\<open>{...params, error}\<close>).
\<close>

definition request_to :: "string \<Rightarrow> string \<Rightarrow> params" where
  "request_to m a =
     \<lparr>http_method = Some m, address = Some a, addressSuffix = None, requestBody = None,
      requestHeaders = None, acceptedStatusCodes = None\<rparr>"

definition failed :: "params \<Rightarrow> string \<Rightarrow> error_params" where
  "failed p msg =
     \<lparr>http_method = http_method p, address = address p, addressSuffix = addressSuffix p,
      requestBody = requestBody p, requestHeaders = requestHeaders p,
      acceptedStatusCodes = acceptedStatusCodes p, error = Error msg\<rparr>"

text \<open>The parameters the runner hands to the halt handler (\<open>{...params, reason}\<close>).\<close>

definition halted :: "params \<Rightarrow> string option \<Rightarrow> halt_params" where
  "halted p why =
     \<lparr>http_method = http_method p, address = address p, addressSuffix = addressSuffix p,
      requestBody = requestBody p, requestHeaders = requestHeaders p,
      acceptedStatusCodes = acceptedStatusCodes p, reason = why\<rparr>"

text \<open>The tests' context with other secrets.\<close>

definition with_secrets :: "(string \<times> string) list \<Rightarrow> exec_context" where
  "with_secrets kvs = mockContext\<lparr>secrets := map_of kvs\<rparr>"


section \<open>Facts about the building blocks\<close>

subsection \<open>Objects\<close>

lemma map_of_set_prop: "map_of (set_prop h k v) = (map_of h)(k \<mapsto> v)"
  by (induction h k v rule: set_prop.induct) auto

lemma get_prop_set_prop:
  "get_prop (set_prop h k v) k' = (if k' = k then v else get_prop h k')"
  by (simp add: get_prop_def map_of_set_prop)

lemma get_prop_fold_set_prop:
  "get_prop (fold (\<lambda>(k, v) t. set_prop t k v) ps h) k =
     (case map_of (rev ps) k of Some v \<Rightarrow> v | None \<Rightarrow> get_prop h k)"
proof (induction ps arbitrary: h)
  case Nil
  then show ?case by simp
next
  case (Cons kv ps)
  obtain k' v' where kv: "kv = (k', v')" by (cases kv)
  show ?case
    by (simp add: kv Cons.IH get_prop_set_prop map_add_def split: option.splits)
qed

lemma get_prop_Object_assign:
  "get_prop (Object_assign h src) k =
     (case map_of (rev (own_props src)) k of Some v \<Rightarrow> v | None \<Rightarrow> get_prop h k)"
  by (simp add: Object_assign_def get_prop_fold_set_prop)

lemma truthy_val_Some: "truthy_val x = Some s \<longleftrightarrow> x = Some s \<and> s \<noteq> []"
  by (cases x) auto

lemma remove_leading_slash_eq:
  "s \<noteq> [] \<Longrightarrow> remove_leading_slash s = (if hd s = CHR ''/'' then tl s else s)"
  by (cases s) auto

subsection \<open>Numbers as text\<close>

text \<open>\<open>digits\<close> writes a number in decimal: reading the digits back gives the number.\<close>

lemma digit_value_digit: "d < 10 \<Longrightarrow> digit_value (''0123456789'' ! d) = d"
proof -
  assume "d < 10"
  then have "d \<in> {0, 1, 2, 3, 4, 5, 6, 7, 8, 9}" by auto
  then show ?thesis
    by (auto simp: digit_value_def)
qed

lemma decimal_value_snoc: "decimal_value (s @ [c]) = 10 * decimal_value s + digit_value c"
  by (simp add: decimal_value_def)

lemma decimal_value_digits: "decimal_value (digits n) = n"
proof (induction n rule: digits.induct)
  case (1 n)
  show ?case
  proof (cases "n < 10")
    case True
    then show ?thesis
      by (simp add: digits.simps [of n] decimal_value_def digit_value_digit)
  next
    case False
    with 1 have "decimal_value (digits (n div 10)) = n div 10" by simp
    with False show ?thesis
      by (simp add: digits.simps [of n] decimal_value_snoc digit_value_digit)
  qed
qed

lemma digits_inj: "digits m = digits n \<Longrightarrow> m = n"
  by (metis decimal_value_digits)

subsection \<open>Substring search\<close>

text \<open>
  \<open>str_includes\<close> is the library's contiguous-sublist relation, so a match is an exact,
  case-sensitive occurrence of the pattern.
\<close>

lemma starts_with_prefix: "starts_with s p \<longleftrightarrow> prefix p s"
  by (induction s p rule: starts_with.induct) auto

lemma str_includes_sublist: "str_includes s pat \<longleftrightarrow> sublist pat s"
  by (induction s) (auto simp: starts_with_prefix sublist_Cons_right)

lemma str_includes_append: "str_includes (p @ s) p"
  by (simp add: str_includes_sublist)

subsection \<open>Records and runs of \<open>webhookJob.invoke\<close>\<close>

lemma truncate_fields:
  "http_method (params.truncate p) = http_method p"
  "address (params.truncate p) = address p"
  "addressSuffix (params.truncate p) = addressSuffix p"
  "requestBody (params.truncate p) = requestBody p"
  "requestHeaders (params.truncate p) = requestHeaders p"
  "acceptedStatusCodes (params.truncate p) = acceptedStatusCodes p"
  by (simp_all add: params.truncate_def)

lemma target_url_ok:
  assumes "truthy_val (http_method p) = Some m" and "truthy_val (address p) = Some a"
  shows "\<exists>url. target_url p = Inr (m, url)"
  using assms by (cases "truthy_val (addressSuffix p)") (simp_all add: target_url_def)

lemma invoke_sent:
  assumes "fst (webhookJob_invoke pf p ctx) = [Request url opts]"
  shows "\<exists>m. target_url p = Inr (m, url) \<and> build_options pf p ctx m = Inr opts \<and>
             snd (webhookJob_invoke pf p ctx) =
               (case transport pf url opts of
                  Inl e \<Rightarrow> Inl (Error (''HTTP request failed: '' @ message e))
                | Inr res \<Rightarrow> Inr (job_result pf p m url res))"
  using assms by (auto simp: webhookJob_invoke_def split: sum.splits prod.splits)

lemma invoke_trace:
  "fst (webhookJob_invoke pf p ctx) = [] \<or>
   (\<exists>url opts. fst (webhookJob_invoke pf p ctx) = [Request url opts])"
  by (auto simp: webhookJob_invoke_def split: sum.splits prod.splits)

lemma apply_auth_none: "apply_auth Map.empty h = h"
  by (simp add: apply_auth_def)

lemma get_prop_apply_auth:
  "k \<noteq> ''Authorization'' \<Longrightarrow> k \<noteq> ''X-API-Key'' \<Longrightarrow>
   get_prop (apply_auth sec h) k = get_prop h k"
  by (simp add: apply_auth_def get_prop_set_prop split: option.splits)

lemma build_options_secrets:
  assumes "build_options pf p ctx m = Inr opts"
  shows "\<exists>opts0. build_options pf p (ctx\<lparr>secrets := Map.empty\<rparr>) m = Inr opts0 \<and>
           opts = opts0\<lparr>opt_headers := apply_auth (secrets ctx) (opt_headers opts0)\<rparr>"
  using assms
  by (auto simp: build_options_def apply_auth_none split: sum.splits)

lemmas job_defs = webhookJob_invoke_def target_url_def build_options_def add_body_def
  add_headers_def apply_auth_def job_result_def accepted_codes_def
  remove_trailing_slash_def toUpperCase_def upper_char_def Object_assign_def get_prop_def
  webhookJob_error_def recovery_result_def webhookJob_halt_def js_or_def

lemmas test_defs = test_platform_def test_parse_def test_stringify_def test_transport_def
  mockContext_def

subsection \<open>The script's steps\<close>






section \<open>Response classification\<close>

text \<open>
  Claim C1. Whenever \<open>webhookJob.invoke\<close> has sent its request and the transport completes
  with a response of status code \<open>code\<close>, the handler returns (it does not throw) a result
  object. Its status is \<open>success\<close> exactly when \<open>200 \<le> code < 300\<close> or \<open>code\<close> is listed in
  \<open>acceptedStatusCodes\<close> (no list given: none is); otherwise its status is \<open>http_error\<close> and
  its \<open>error\<close> field is the text \<open>HTTP request failed with status\<close> followed by the code in
  decimal digits.
\<close>

theorem invoke_classifies_status:
  assumes sent: "fst (webhookJob_invoke pf p ctx) = [Request url opts]"
      and completes: "transport pf url opts = Inr res"
  shows "\<exists>r. snd (webhookJob_invoke pf p ctx) = Inr r \<and>
           get_prop r ''status_code'' = JNum (of_nat (statusCode res)) \<and>
           (get_prop r ''status'' = JStr ''success'' \<longleftrightarrow>
              (200 \<le> statusCode res \<and> statusCode res < 300) \<or>
              (\<exists>cs. acceptedStatusCodes p = Some cs \<and> int (statusCode res) \<in> set cs)) \<and>
           (get_prop r ''status'' \<noteq> JStr ''success'' \<longrightarrow>
              get_prop r ''status'' = JStr ''http_error'' \<and>
              get_prop r ''error'' =
                JStr (''HTTP request failed with status '' @ digits (statusCode res)))"
proof -
  from invoke_sent [OF sent] completes obtain m where
    r: "snd (webhookJob_invoke pf p ctx) = Inr (job_result pf p m url res)"
    by auto
  show ?thesis
    unfolding r
    by (auto simp: job_result_def get_prop_def accepted_codes_def Let_def split: option.splits)
qed

theorem invoke_classifies_status_witness:
  \<open>(\<exists>opts res.
      fst (webhookJob_invoke test_platform
             ((request_to ''POST'' ''https://api.example.com/fail'')
                \<lparr>requestBody := Some ''{"test": true}''\<rparr>) mockContext) =
        [Request ''https://api.example.com/fail'' opts] \<and>
      transport test_platform ''https://api.example.com/fail'' opts = Inr res \<and>
      statusCode res = 500 \<and>
      (\<exists>r. snd (webhookJob_invoke test_platform
                  ((request_to ''POST'' ''https://api.example.com/fail'')
                     \<lparr>requestBody := Some ''{"test": true}''\<rparr>) mockContext) = Inr r \<and>
           get_prop r ''status'' = JStr ''http_error'' \<and>
           get_prop r ''error'' = JStr ''HTTP request failed with status 500'' \<and>
           get_prop r ''status_code'' = JNum 500)) \<and>
   (\<exists>opts res.
      fst (webhookJob_invoke test_platform
             ((request_to ''DELETE'' ''https://api.example.com'')
                \<lparr>addressSuffix := Some ''/users/123'',
                 acceptedStatusCodes := Some [404]\<rparr>) mockContext) =
        [Request ''https://api.example.com/users/123'' opts] \<and>
      transport test_platform ''https://api.example.com/users/123'' opts = Inr res \<and>
      statusCode res = 404 \<and>
      (\<exists>r. snd (webhookJob_invoke test_platform
                  ((request_to ''DELETE'' ''https://api.example.com'')
                     \<lparr>addressSuffix := Some ''/users/123'',
                      acceptedStatusCodes := Some [404]\<rparr>) mockContext) = Inr r \<and>
           get_prop r ''status'' = JStr ''success'' \<and>
           get_prop r ''status_code'' = JNum 404))\<close>
proof -
  let ?p = \<open>(request_to ''POST'' ''https://api.example.com/fail'')
               \<lparr>requestBody := Some ''{"test": true}''\<rparr>\<close>
  let ?opts = \<open>\<lparr>opt_method = ''POST'',
                 opt_headers = [(''User-Agent'', JStr ''sgnl-generic-webhook/1.0.0''),
                                (''Content-Type'', JStr ''application/json''),
                                (''X-API-Key'', JStr ''test-api-key-123456'')],
                 opt_body = Some ''{"test": true}''\<rparr>\<close>
  let ?res = "\<lparr>statusCode = 500,
                res_headers = JObj [(''content-type'', JStr ''text/plain'')],
                res_body = ''Internal Server Error''\<rparr>"
  let ?q = "(request_to ''DELETE'' ''https://api.example.com'')
              \<lparr>addressSuffix := Some ''/users/123'', acceptedStatusCodes := Some [404]\<rparr>"
  let ?qopts = "\<lparr>opt_method = ''DELETE'',
                  opt_headers = [(''User-Agent'', JStr ''sgnl-generic-webhook/1.0.0''),
                                 (''X-API-Key'', JStr ''test-api-key-123456'')],
                  opt_body = None\<rparr>"
  let ?qres = "\<lparr>statusCode = 404,
                 res_headers = JObj [(''content-type'', JStr ''text/plain'')],
                 res_body = ''Not Found''\<rparr>"
  have sent: "fst (webhookJob_invoke test_platform ?p mockContext) =
                [Request ''https://api.example.com/fail'' ?opts]"
    by (simp add: job_defs test_defs request_to_def)
  have completes: "transport test_platform ''https://api.example.com/fail'' ?opts = Inr ?res"
    by (simp add: test_defs)
  from invoke_classifies_status [OF sent completes] obtain r where
    r: "snd (webhookJob_invoke test_platform ?p mockContext) = Inr r"
       "get_prop r ''status_code'' = JNum 500"
       "get_prop r ''status'' \<noteq> JStr ''success''"
       "get_prop r ''status'' \<noteq> JStr ''success'' \<longrightarrow>
          get_prop r ''status'' = JStr ''http_error'' \<and>
          get_prop r ''error'' = JStr (''HTTP request failed with status '' @ digits 500)"
    by (auto simp: request_to_def)
  have "digits 500 = ''500''"
    by (simp add: digits.simps)
  with sent completes r have first: "\<exists>opts res.
      fst (webhookJob_invoke test_platform ?p mockContext) =
        [Request ''https://api.example.com/fail'' opts] \<and>
      transport test_platform ''https://api.example.com/fail'' opts = Inr res \<and>
      statusCode res = 500 \<and>
      (\<exists>r. snd (webhookJob_invoke test_platform ?p mockContext) = Inr r \<and>
           get_prop r ''status'' = JStr ''http_error'' \<and>
           get_prop r ''error'' = JStr ''HTTP request failed with status 500'' \<and>
           get_prop r ''status_code'' = JNum 500)"
    by (intro exI [of _ ?opts] exI [of _ ?res]) simp
  have qsent: "fst (webhookJob_invoke test_platform ?q mockContext) =
                 [Request ''https://api.example.com/users/123'' ?qopts]"
    by (simp add: job_defs test_defs request_to_def)
  have qcompletes:
    "transport test_platform ''https://api.example.com/users/123'' ?qopts = Inr ?qres"
    by (simp add: test_defs)
  from invoke_classifies_status [OF qsent qcompletes] obtain r' where
    r': "snd (webhookJob_invoke test_platform ?q mockContext) = Inr r'"
        "get_prop r' ''status_code'' = JNum 404"
        "get_prop r' ''status'' = JStr ''success''"
    by (auto simp: request_to_def)
  with qsent qcompletes have second: "\<exists>opts res.
      fst (webhookJob_invoke test_platform ?q mockContext) =
        [Request ''https://api.example.com/users/123'' opts] \<and>
      transport test_platform ''https://api.example.com/users/123'' opts = Inr res \<and>
      statusCode res = 404 \<and>
      (\<exists>r. snd (webhookJob_invoke test_platform ?q mockContext) = Inr r \<and>
           get_prop r ''status'' = JStr ''success'' \<and>
           get_prop r ''status_code'' = JNum 404)"
    by (intro exI [of _ ?qopts] exI [of _ ?qres]) simp
  from first second show ?thesis
    by (rule conjI)
qed

section \<open>The error handler\<close>

text \<open>
  Claim C2. For an error whose message contains neither \<open>rate limit\<close> nor \<open>429\<close>,
  \<open>webhookJob.error\<close> sends nothing and waits for nothing, and: if the message contains
  \<open>timeout\<close> or \<open>ETIMEDOUT\<close> it returns a result with status \<open>timeout_error\<close> and recovery
  method \<open>timeout_handling\<close>; else if it contains \<open>ENOTFOUND\<close> or \<open>DNS\<close> it returns status
  \<open>dns_error\<close> with recovery method \<open>dns_failure_handling\<close>; else it throws
  \<open>Unrecoverable webhook error:\<close> followed by the message. The tests are exact substring
  matches (\<open>str_includes_sublist\<close>), tried in this order.
\<close>

theorem error_dispatch:
  assumes "\<not> str_includes (message (error p)) ''rate limit''"
      and "\<not> str_includes (message (error p)) ''429''"
  shows "fst (webhookJob_error pf p ctx) = [] \<and>
         (if str_includes (message (error p)) ''timeout'' \<or>
             str_includes (message (error p)) ''ETIMEDOUT''
          then \<exists>r. snd (webhookJob_error pf p ctx) = Inr r \<and>
                 get_prop r ''status'' = JStr ''timeout_error'' \<and>
                 get_prop r ''recovery_method'' = JStr ''timeout_handling''
          else if str_includes (message (error p)) ''ENOTFOUND'' \<or>
                  str_includes (message (error p)) ''DNS''
          then \<exists>r. snd (webhookJob_error pf p ctx) = Inr r \<and>
                 get_prop r ''status'' = JStr ''dns_error'' \<and>
                 get_prop r ''recovery_method'' = JStr ''dns_failure_handling''
          else snd (webhookJob_error pf p ctx) =
                 Inl (Error (''Unrecoverable webhook error: '' @ message (error p))))"
  using assms
  by (simp add: webhookJob_error_def recovery_result_def get_prop_def Let_def)

theorem error_dispatch_witness:
  "(\<exists>r. webhookJob_error test_platform
           (failed (request_to ''GET'' ''https://api.example.com'') ''Request timeout - ETIMEDOUT'')
           mockContext = ([], Inr r) \<and>
        get_prop r ''status'' = JStr ''timeout_error'' \<and>
        get_prop r ''recovery_method'' = JStr ''timeout_handling'') \<and>
   (\<exists>r. webhookJob_error test_platform
           (failed (request_to ''POST'' ''https://nonexistent.example.com'')
              ''DNS resolution failed - ENOTFOUND'')
           mockContext = ([], Inr r) \<and>
        get_prop r ''status'' = JStr ''dns_error'' \<and>
        get_prop r ''recovery_method'' = JStr ''dns_failure_handling'') \<and>
   webhookJob_error test_platform
     (failed (request_to ''GET'' ''https://api.example.com'') ''Invalid SSL certificate'')
     mockContext = ([], Inl (Error ''Unrecoverable webhook error: Invalid SSL certificate'')) \<and>
   webhookJob_error test_platform
     (failed (request_to ''GET'' ''https://api.example.com'') ''Connection Timeout'')
     mockContext = ([], Inl (Error ''Unrecoverable webhook error: Connection Timeout''))"
proof -
  let ?g = "request_to ''GET'' ''https://api.example.com''"
  let ?d = "request_to ''POST'' ''https://nonexistent.example.com''"
  have a: "\<not> str_includes (message (error (failed p ''Request timeout - ETIMEDOUT''))) ''rate limit''"
          "\<not> str_includes (message (error (failed p ''Request timeout - ETIMEDOUT''))) ''429''"
    for p by (simp_all add: failed_def)
  have b: "\<not> str_includes (message (error (failed p ''DNS resolution failed - ENOTFOUND''))) ''rate limit''"
          "\<not> str_includes (message (error (failed p ''DNS resolution failed - ENOTFOUND''))) ''429''"
    for p by (simp_all add: failed_def)
  have c: "\<not> str_includes (message (error (failed p ''Invalid SSL certificate''))) ''rate limit''"
          "\<not> str_includes (message (error (failed p ''Invalid SSL certificate''))) ''429''"
    for p by (simp_all add: failed_def)
  have d: "\<not> str_includes (message (error (failed p ''Connection Timeout''))) ''rate limit''"
          "\<not> str_includes (message (error (failed p ''Connection Timeout''))) ''429''"
    for p by (simp_all add: failed_def)
  have e: "error (failed p msg) = Error msg" for p msg
    by (simp add: failed_def)
  show ?thesis
    using error_dispatch [OF a, of test_platform ?g mockContext]
          error_dispatch [OF b, of test_platform ?d mockContext]
          error_dispatch [OF c, of test_platform ?g mockContext]
          error_dispatch [OF d, of test_platform ?g mockContext]
    by (simp add: e prod_eq_iff)
qed

text \<open>
  Claim C3. For an error whose message contains \<open>rate limit\<close> or \<open>429\<close>, \<open>webhookJob.error\<close>
  first waits 5000 ms, then calls \<open>webhookJob.invoke\<close> once with the same context and with
  parameters \<open>q\<close> that are the given ones without the \<open>error\<close> field, and returns what that
  call returns; if the call throws, the handler throws
  \<open>Retry failed after rate limit backoff:\<close> followed by the inner message. In the whole
  run there is one wait and at most one request.
\<close>

theorem error_rate_limit_retry:
  assumes "str_includes (message (error p)) ''rate limit'' \<or>
           str_includes (message (error p)) ''429''"
  shows "\<exists>q. http_method q = http_method p \<and> address q = address p \<and>
             addressSuffix q = addressSuffix p \<and> requestBody q = requestBody p \<and>
             requestHeaders q = requestHeaders p \<and>
             acceptedStatusCodes q = acceptedStatusCodes p \<and>
             fst (webhookJob_error pf p ctx) = Sleep 5000 # fst (webhookJob_invoke pf q ctx) \<and>
             snd (webhookJob_error pf p ctx) =
               (case snd (webhookJob_invoke pf q ctx) of
                  Inl retryError \<Rightarrow>
                    Inl (Error (''Retry failed after rate limit backoff: '' @
                                message retryError))
                | Inr r \<Rightarrow> Inr r) \<and>
             length (filter is_Request (fst (webhookJob_error pf p ctx))) \<le> 1 \<and>
             length (filter is_Sleep (fst (webhookJob_error pf p ctx))) = 1"
proof -
  let ?q = "params.truncate p"
  have run: "webhookJob_error pf p ctx =
      (Sleep 5000 # fst (webhookJob_invoke pf ?q ctx),
       case snd (webhookJob_invoke pf ?q ctx) of
         Inl retryError \<Rightarrow>
           Inl (Error (''Retry failed after rate limit backoff: '' @ message retryError))
       | Inr r \<Rightarrow> Inr r)"
    using assms
    by (cases "webhookJob_invoke pf ?q ctx")
       (auto simp: webhookJob_error_def Let_def split: sum.splits)
  have count: "length (filter is_Request (fst (webhookJob_invoke pf ?q ctx))) \<le> 1"
              "filter is_Sleep (fst (webhookJob_invoke pf ?q ctx)) = []"
    using invoke_trace [of pf ?q ctx] by auto
  show ?thesis
    using count by (intro exI [of _ ?q]) (simp add: run truncate_fields)
qed

theorem error_rate_limit_retry_witness:
  "(\<exists>r. webhookJob_error test_platform
           (failed (request_to ''GET'' ''https://api.example.com/users'')
              ''HTTP request failed: 429 Too Many Requests'') mockContext =
         ([Sleep 5000,
           Request ''https://api.example.com/users''
             \<lparr>opt_method = ''GET'',
              opt_headers = [(''User-Agent'', JStr ''sgnl-generic-webhook/1.0.0''),
                             (''X-API-Key'', JStr ''test-api-key-123456'')],
              opt_body = None\<rparr>], Inr r) \<and>
        get_prop r ''status'' = JStr ''success'') \<and>
   webhookJob_error test_platform
     (failed (request_to ''GET'' ''https://down.example.com'') ''rate limit exceeded'')
     mockContext =
     ([Sleep 5000,
       Request ''https://down.example.com''
         \<lparr>opt_method = ''GET'',
          opt_headers = [(''User-Agent'', JStr ''sgnl-generic-webhook/1.0.0''),
                         (''X-API-Key'', JStr ''test-api-key-123456'')],
          opt_body = None\<rparr>],
      Inl (Error (''Retry failed after rate limit backoff: '' @
                  ''HTTP request failed: getaddrinfo ENOTFOUND down.example.com'')))"
proof -
  let ?u = "request_to ''GET'' ''https://api.example.com/users''"
  let ?d = "request_to ''GET'' ''https://down.example.com''"
  let ?p1 = "failed ?u ''HTTP request failed: 429 Too Many Requests''"
  let ?p2 = "failed ?d ''rate limit exceeded''"
  have h1: "str_includes (message (error ?p1)) ''rate limit'' \<or>
            str_includes (message (error ?p1)) ''429''"
    by (simp add: failed_def)
  have h2: "str_includes (message (error ?p2)) ''rate limit'' \<or>
            str_includes (message (error ?p2)) ''429''"
    by (simp add: failed_def)
  have same: "q = p" if "http_method q = http_method (failed p msg)"
      "address q = address (failed p msg)" "addressSuffix q = addressSuffix (failed p msg)"
      "requestBody q = requestBody (failed p msg)" "requestHeaders q = requestHeaders (failed p msg)"
      "acceptedStatusCodes q = acceptedStatusCodes (failed p msg)" for q p :: params and msg
    using that by (simp add: failed_def)
  from error_rate_limit_retry [OF h1, of test_platform mockContext] same [of _ ?u]
  have r1: "webhookJob_error test_platform ?p1 mockContext =
     (Sleep 5000 # fst (webhookJob_invoke test_platform ?u mockContext),
      case snd (webhookJob_invoke test_platform ?u mockContext) of
        Inl retryError \<Rightarrow>
          Inl (Error (''Retry failed after rate limit backoff: '' @ message retryError))
      | Inr r \<Rightarrow> Inr r)"
    by (auto simp: prod_eq_iff)
  from error_rate_limit_retry [OF h2, of test_platform mockContext] same [of _ ?d]
  have r2: "webhookJob_error test_platform ?p2 mockContext =
     (Sleep 5000 # fst (webhookJob_invoke test_platform ?d mockContext),
      case snd (webhookJob_invoke test_platform ?d mockContext) of
        Inl retryError \<Rightarrow>
          Inl (Error (''Retry failed after rate limit backoff: '' @ message retryError))
      | Inr r \<Rightarrow> Inr r)"
    by (auto simp: prod_eq_iff)
  show ?thesis
    unfolding r1 r2 by (simp add: job_defs test_defs request_to_def digits.simps)
qed

section \<open>URL resolution\<close>

text \<open>
  Claim C9. With a non-empty method, address and \<open>addressSuffix\<close>, the URL that
  \<open>webhookJob.invoke\<close> requests, and reports in its result, is the address without its last
  character when that is a slash, then one slash, then the suffix without its first
  character when that is a slash. Nothing else is changed. The address
  \<open>https://api.example.com/\<close> with the suffix \<open>/users\<close> gives
  \<open>https://api.example.com/users\<close>.
\<close>

theorem address_suffix_join:
  assumes "truthy_val (http_method p) = Some m"
      and "truthy_val (address p) = Some a"
      and "truthy_val (addressSuffix p) = Some s"
  shows "(\<forall>url opts. Request url opts \<in> set (fst (webhookJob_invoke pf p ctx)) \<longrightarrow>
            url = (if last a = CHR ''/'' then butlast a else a) @ ''/'' @
                  (if hd s = CHR ''/'' then tl s else s)) \<and>
         (\<forall>r. snd (webhookJob_invoke pf p ctx) = Inr r \<longrightarrow>
            get_prop r ''url'' =
              JStr ((if last a = CHR ''/'' then butlast a else a) @ ''/'' @
                    (if hd s = CHR ''/'' then tl s else s)))"
proof -
  define J where "J = (if last a = CHR ''/'' then butlast a else a) @ ''/'' @
                      (if hd s = CHR ''/'' then tl s else s)"
  from assms have ne: "a \<noteq> []" "s \<noteq> []"
    by (auto simp: truthy_val_Some)
  have t: "target_url p = Inr (m, J)"
    using assms ne
    by (simp add: J_def target_url_def remove_trailing_slash_def remove_leading_slash_eq)
  have url: "get_prop (job_result pf p m J res) ''url'' = JStr J" for res
    by (simp add: job_result_def get_prop_def Let_def)
  have "(\<forall>url opts. Request url opts \<in> set (fst (webhookJob_invoke pf p ctx)) \<longrightarrow> url = J) \<and>
        (\<forall>r. snd (webhookJob_invoke pf p ctx) = Inr r \<longrightarrow> get_prop r ''url'' = JStr J)"
    by (cases "build_options pf p ctx m"; cases "transport pf J (projr (build_options pf p ctx m))")
       (auto simp: webhookJob_invoke_def t url)
  then show ?thesis
    by (simp add: J_def)
qed

theorem address_suffix_join_witness:
  "webhookJob_invoke test_platform
     ((request_to ''GET'' ''https://api.example.com/'')\<lparr>addressSuffix := Some ''/users''\<rparr>)
     mockContext =
   ([Request ''https://api.example.com/users''
       \<lparr>opt_method = ''GET'',
        opt_headers = [(''User-Agent'', JStr ''sgnl-generic-webhook/1.0.0''),
                       (''X-API-Key'', JStr ''test-api-key-123456'')],
        opt_body = None\<rparr>],
    snd (webhookJob_invoke test_platform
     ((request_to ''GET'' ''https://api.example.com/'')\<lparr>addressSuffix := Some ''/users''\<rparr>)
     mockContext)) \<and>
   (\<exists>r. snd (webhookJob_invoke test_platform
     ((request_to ''GET'' ''https://api.example.com/'')\<lparr>addressSuffix := Some ''/users''\<rparr>)
     mockContext) = Inr r \<and> get_prop r ''url'' = JStr ''https://api.example.com/users'')"
proof -
  let ?p = "(request_to ''GET'' ''https://api.example.com/'')\<lparr>addressSuffix := Some ''/users''\<rparr>"
  let ?run = "webhookJob_invoke test_platform ?p mockContext"
  have h: "truthy_val (http_method ?p) = Some ''GET''"
          "truthy_val (address ?p) = Some ''https://api.example.com/''"
          "truthy_val (addressSuffix ?p) = Some ''/users''"
    by (simp_all add: request_to_def)
  have sent: "\<exists>url opts. fst ?run = [Request url opts] \<and>
                opts = \<lparr>opt_method = ''GET'',
                         opt_headers = [(''User-Agent'', JStr ''sgnl-generic-webhook/1.0.0''),
                                        (''X-API-Key'', JStr ''test-api-key-123456'')],
                         opt_body = None\<rparr>"
    by (simp add: job_defs test_defs request_to_def)
  have ret: "\<exists>r. snd ?run = Inr r"
    by (simp add: job_defs test_defs request_to_def)
  from address_suffix_join [OF h, of test_platform mockContext] sent ret
  show ?thesis
    by (auto simp: prod_eq_iff)
qed

section \<open>Authentication\<close>

text \<open>
  Claim C6. A secret counts as present when it is set to a non-empty string. Compare the
  request \<open>webhookJob.invoke\<close> sends with the one it sends when the context holds no
  secrets: method and body are the same, and the headers differ in at most one name. If
  \<open>AUTHORIZATION_HEADER\<close> is present, \<open>Authorization\<close> is that value and every other header
  is as without secrets; else if \<open>API_KEY\<close> is present, \<open>X-API-Key\<close> is that key and every
  other header, \<open>Authorization\<close> included, is as without secrets; else if \<open>BEARER_TOKEN\<close>
  is present, \<open>Authorization\<close> is \<open>Bearer\<close>, a space and the token; else the headers are
  the same.
\<close>

theorem auth_header_precedence:
  assumes "fst (webhookJob_invoke pf p ctx) = [Request url opts]"
  shows "\<exists>opts0.
           fst (webhookJob_invoke pf p (ctx\<lparr>secrets := Map.empty\<rparr>)) = [Request url opts0] \<and>
           opt_method opts = opt_method opts0 \<and> opt_body opts = opt_body opts0 \<and>
           (case truthy_val (secrets ctx ''AUTHORIZATION_HEADER'') of
              Some a \<Rightarrow>
                \<forall>k. get_prop (opt_headers opts) k =
                      (if k = ''Authorization'' then JStr a else get_prop (opt_headers opts0) k)
            | None \<Rightarrow>
                (case truthy_val (secrets ctx ''API_KEY'') of
                   Some key \<Rightarrow>
                     \<forall>k. get_prop (opt_headers opts) k =
                           (if k = ''X-API-Key'' then JStr key
                            else get_prop (opt_headers opts0) k)
                 | None \<Rightarrow>
                     (case truthy_val (secrets ctx ''BEARER_TOKEN'') of
                        Some t \<Rightarrow>
                          \<forall>k. get_prop (opt_headers opts) k =
                                (if k = ''Authorization'' then JStr (''Bearer '' @ t)
                                 else get_prop (opt_headers opts0) k)
                      | None \<Rightarrow> opt_headers opts = opt_headers opts0)))"
proof -
  from invoke_sent [OF assms] obtain m where
    t: "target_url p = Inr (m, url)" and b: "build_options pf p ctx m = Inr opts"
    by blast
  from build_options_secrets [OF b] obtain opts0 where
    b0: "build_options pf p (ctx\<lparr>secrets := Map.empty\<rparr>) m = Inr opts0" and
    o: "opts = opts0\<lparr>opt_headers := apply_auth (secrets ctx) (opt_headers opts0)\<rparr>"
    by blast
  have sent0: "fst (webhookJob_invoke pf p (ctx\<lparr>secrets := Map.empty\<rparr>)) = [Request url opts0]"
    by (simp add: webhookJob_invoke_def t b0)
  show ?thesis
    by (rule exI [of _ opts0])
       (simp add: sent0 o apply_auth_def get_prop_set_prop split: option.splits)
qed

theorem auth_header_precedence_witness:
  "(\<exists>opts. fst (webhookJob_invoke test_platform
                 (request_to ''GET'' ''https://api.example.com/users'')
                 (with_secrets [(''API_KEY'', ''key-123''), (''BEARER_TOKEN'', ''tok-456'')])) =
              [Request ''https://api.example.com/users'' opts] \<and>
            get_prop (opt_headers opts) ''X-API-Key'' = JStr ''key-123'' \<and>
            get_prop (opt_headers opts) ''Authorization'' = JUndefined) \<and>
   (\<exists>opts. fst (webhookJob_invoke test_platform
                 (request_to ''GET'' ''https://api.example.com/users'')
                 (with_secrets [(''BEARER_TOKEN'', ''tok-456''), (''API_KEY'', ''key-123''),
                                (''AUTHORIZATION_HEADER'', ''Basic dXNlcjpwYXNz'')])) =
              [Request ''https://api.example.com/users'' opts] \<and>
            get_prop (opt_headers opts) ''Authorization'' = JStr ''Basic dXNlcjpwYXNz'' \<and>
            get_prop (opt_headers opts) ''X-API-Key'' = JUndefined) \<and>
   (\<exists>opts. fst (webhookJob_invoke test_platform
                 (request_to ''GET'' ''https://api.example.com/users'')
                 (with_secrets [(''BEARER_TOKEN'', ''tok-456'')])) =
              [Request ''https://api.example.com/users'' opts] \<and>
            get_prop (opt_headers opts) ''Authorization'' = JStr ''Bearer tok-456'' \<and>
            get_prop (opt_headers opts) ''X-API-Key'' = JUndefined)"
proof -
  let ?p = "request_to ''GET'' ''https://api.example.com/users''"
  let ?c1 = "with_secrets [(''API_KEY'', ''key-123''), (''BEARER_TOKEN'', ''tok-456'')]"
  let ?c2 = "with_secrets [(''BEARER_TOKEN'', ''tok-456''), (''API_KEY'', ''key-123''),
                           (''AUTHORIZATION_HEADER'', ''Basic dXNlcjpwYXNz'')]"
  let ?c3 = "with_secrets [(''BEARER_TOKEN'', ''tok-456'')]"
  have sent: "\<exists>opts. fst (webhookJob_invoke test_platform ?p (with_secrets kvs)) =
                [Request ''https://api.example.com/users'' opts]" for kvs
    by (simp add: webhookJob_invoke_def target_url_def build_options_def add_body_def
          add_headers_def request_to_def)
  have plain: "fst (webhookJob_invoke test_platform ?p ((with_secrets kvs)\<lparr>secrets := Map.empty\<rparr>)) =
      [Request ''https://api.example.com/users''
         \<lparr>opt_method = ''GET'',
          opt_headers = [(''User-Agent'', JStr ''sgnl-generic-webhook/1.0.0'')],
          opt_body = None\<rparr>]" for kvs
    by (simp add: job_defs test_defs request_to_def with_secrets_def)
  from sent [of "[(''API_KEY'', ''key-123''), (''BEARER_TOKEN'', ''tok-456'')]"]
  obtain o1 where s1: "fst (webhookJob_invoke test_platform ?p ?c1) =
      [Request ''https://api.example.com/users'' o1]" by blast
  from sent [of "[(''BEARER_TOKEN'', ''tok-456''), (''API_KEY'', ''key-123''),
                  (''AUTHORIZATION_HEADER'', ''Basic dXNlcjpwYXNz'')]"]
  obtain o2 where s2: "fst (webhookJob_invoke test_platform ?p ?c2) =
      [Request ''https://api.example.com/users'' o2]" by blast
  from sent [of "[(''BEARER_TOKEN'', ''tok-456'')]"]
  obtain o3 where s3: "fst (webhookJob_invoke test_platform ?p ?c3) =
      [Request ''https://api.example.com/users'' o3]" by blast
  have "get_prop (opt_headers o1) ''X-API-Key'' = JStr ''key-123'' \<and>
        get_prop (opt_headers o1) ''Authorization'' = JUndefined"
    using auth_header_precedence [OF s1]
    by (simp add: plain) (simp add: with_secrets_def get_prop_def)
  moreover have "get_prop (opt_headers o2) ''Authorization'' = JStr ''Basic dXNlcjpwYXNz'' \<and>
        get_prop (opt_headers o2) ''X-API-Key'' = JUndefined"
    using auth_header_precedence [OF s2]
    by (simp add: plain) (simp add: with_secrets_def get_prop_def)
  moreover have "get_prop (opt_headers o3) ''Authorization'' = JStr ''Bearer tok-456'' \<and>
        get_prop (opt_headers o3) ''X-API-Key'' = JUndefined"
    using auth_header_precedence [OF s3]
    by (simp add: plain) (simp add: with_secrets_def get_prop_def)
  ultimately show ?thesis
    using s1 s2 s3 by simp
qed

section \<open>The address is required\<close>

text \<open>
  Claim C4. \<open>webhookJob.invoke\<close> never reads the context's base URL. Without an address
  it throws \<open>address parameter is required\<close> before any request, whether the context has a
  \<open>WEBHOOK_BASE_URL\<close> or not: the first run is the test "should throw error for missing
  URL", which expects the message \<open>Either address parameter or WEBHOOK_BASE_URL
  environment variable must be provided\<close>, the second is the test "should execute GET
  request successfully", which expects a request to \<open>https://api.example.com/users\<close>.
\<close>

theorem invoke_requires_address:
  "webhookJob_invoke test_platform
     \<lparr>http_method = Some ''GET'', address = None, addressSuffix = None, requestBody = None,
      requestHeaders = None, acceptedStatusCodes = None\<rparr>
     (mockContext\<lparr>env := Map.empty\<rparr>) =
     ([], Inl (Error ''address parameter is required'')) \<and>
   webhookJob_invoke test_platform
     \<lparr>http_method = Some ''GET'', address = None, addressSuffix = Some ''/users'',
      requestBody = None, requestHeaders = None, acceptedStatusCodes = None\<rparr>
     mockContext =
     ([], Inl (Error ''address parameter is required'')) \<and>
   env mockContext ''WEBHOOK_BASE_URL'' = Some ''https://api.example.com''"
  by (simp add: webhookJob_invoke_def target_url_def mockContext_def)

text \<open>More generally, no run of \<open>webhookJob.invoke\<close> depends on the context's environment.\<close>

lemma build_options_env:
  "build_options pf p (ctx\<lparr>env := e\<rparr>) m = build_options pf p ctx m"
  by (simp add: build_options_def split: sum.splits)

lemma invoke_ignores_env:
  "webhookJob_invoke pf p (ctx\<lparr>env := e\<rparr>) = webhookJob_invoke pf p ctx"
  unfolding webhookJob_invoke_def build_options_env ..

section \<open>JSON validation\<close>

text \<open>
  Claim C5, as amended. Let the method and the address be non-empty. If \<open>requestBody\<close> is
  a non-empty string that \<open>JSON.parse\<close> rejects, \<open>webhookJob.invoke\<close> throws
  \<open>Invalid JSON in requestBody:\<close> followed by the parser's message. If \<open>requestBody\<close> is
  absent, empty or valid JSON and \<open>requestHeaders\<close> is a non-empty string that
  \<open>JSON.parse\<close> rejects, it throws \<open>Invalid JSON in requestHeaders:\<close> followed by the
  parser's message. In both cases nothing has been sent.
\<close>

theorem invalid_json_rejected:
  assumes "truthy_val (http_method p) = Some m"
      and "truthy_val (address p) = Some a"
  shows "(\<forall>rb e. truthy_val (requestBody p) = Some rb \<and> JSON_parse pf rb = Inl e \<longrightarrow>
            (\<exists>err. webhookJob_invoke pf p ctx = ([], Inl err) \<and>
               message err = ''Invalid JSON in requestBody: '' @ message e \<and>
               str_includes (message err) ''Invalid JSON in requestBody'')) \<and>
         (\<forall>rh e. (truthy_val (requestBody p) = None \<or>
                   (\<exists>rb v. truthy_val (requestBody p) = Some rb \<and> JSON_parse pf rb = Inr v)) \<and>
                  truthy_val (requestHeaders p) = Some rh \<and> JSON_parse pf rh = Inl e \<longrightarrow>
            (\<exists>err. webhookJob_invoke pf p ctx = ([], Inl err) \<and>
               message err = ''Invalid JSON in requestHeaders: '' @ message e \<and>
               str_includes (message err) ''Invalid JSON in requestHeaders''))"
proof -
  from target_url_ok [OF assms] obtain url where t: "target_url p = Inr (m, url)"
    by blast
  have inc: "str_includes (''Invalid JSON in requestBody: '' @ x) ''Invalid JSON in requestBody''"
            "str_includes (''Invalid JSON in requestHeaders: '' @ x) ''Invalid JSON in requestHeaders''"
    for x
    using str_includes_append [of "''Invalid JSON in requestBody''" "'': '' @ x"]
          str_includes_append [of "''Invalid JSON in requestHeaders''" "'': '' @ x"]
    by simp_all
  have body: "webhookJob_invoke pf p ctx =
                ([], Inl (Error (''Invalid JSON in requestBody: '' @ message e)))"
    if "truthy_val (requestBody p) = Some rb" "JSON_parse pf rb = Inl e" for rb e
    using that by (simp add: webhookJob_invoke_def t build_options_def add_body_def)
  have hdrs: "webhookJob_invoke pf p ctx =
                ([], Inl (Error (''Invalid JSON in requestHeaders: '' @ message e)))"
    if "truthy_val (requestBody p) = None \<or>
        (\<exists>rb v. truthy_val (requestBody p) = Some rb \<and> JSON_parse pf rb = Inr v)"
       "truthy_val (requestHeaders p) = Some rh" "JSON_parse pf rh = Inl e" for rh e
    using that
    by (auto simp: webhookJob_invoke_def t build_options_def add_body_def add_headers_def)
  show ?thesis
    using body hdrs inc by (metis js_error.sel)
qed

theorem invalid_json_rejected_witness:
  \<open>webhookJob_invoke test_platform
     ((request_to ''POST'' ''https://api.example.com/users'')
        \<lparr>requestBody := Some ''{"invalid": json}''\<rparr>) mockContext =
     ([], Inl (Error ''Invalid JSON in requestBody: Unexpected token j in JSON at position 12'')) \<and>
   webhookJob_invoke test_platform
     ((request_to ''GET'' ''https://api.example.com/users'')
        \<lparr>requestBody := Some ''{"test": true}'',
         requestHeaders := Some ''{"invalid": json}''\<rparr>) mockContext =
     ([], Inl (Error ''Invalid JSON in requestHeaders: Unexpected token j in JSON at position 12''))\<close>
proof -
  let ?bad = \<open>''{"invalid": json}''\<close>
  let ?good = \<open>''{"test": true}''\<close>
  let ?p1 = "(request_to ''POST'' ''https://api.example.com/users'')\<lparr>requestBody := Some ?bad\<rparr>"
  let ?p2 = "(request_to ''GET'' ''https://api.example.com/users'')
               \<lparr>requestBody := Some ?good, requestHeaders := Some ?bad\<rparr>"
  let ?e = "Error ''Unexpected token j in JSON at position 12''"
  have bad: "JSON_parse test_platform ?bad = Inl ?e"
    by (simp add: test_defs)
  have good: "JSON_parse test_platform ?good = Inr (JObj [(''test'', JBool True)])"
    by (simp add: test_defs)
  have h1: "truthy_val (http_method ?p1) = Some ''POST''"
           "truthy_val (address ?p1) = Some ''https://api.example.com/users''"
    by (simp_all add: request_to_def)
  have h2: "truthy_val (http_method ?p2) = Some ''GET''"
           "truthy_val (address ?p2) = Some ''https://api.example.com/users''"
    by (simp_all add: request_to_def)
  have b1: "truthy_val (requestBody ?p1) = Some ?bad \<and> JSON_parse test_platform ?bad = Inl ?e"
    using bad by simp
  have b2: "(truthy_val (requestBody ?p2) = None \<or>
             (\<exists>rb v. truthy_val (requestBody ?p2) = Some rb \<and> JSON_parse test_platform rb = Inr v)) \<and>
            truthy_val (requestHeaders ?p2) = Some ?bad \<and> JSON_parse test_platform ?bad = Inl ?e"
    using bad good by simp
  from invalid_json_rejected [OF h1, of test_platform mockContext] b1
  obtain e1 where e1: "webhookJob_invoke test_platform ?p1 mockContext = ([], Inl e1)"
      "message e1 = ''Invalid JSON in requestBody: '' @ message ?e"
    by blast
  from invalid_json_rejected [OF h2, of test_platform mockContext] b2
  obtain e2 where e2: "webhookJob_invoke test_platform ?p2 mockContext = ([], Inl e2)"
      "message e2 = ''Invalid JSON in requestHeaders: '' @ message ?e"
    by blast
  from e1 e2 show ?thesis
    by (cases e1; cases e2) simp
qed


text \<open>
  Claim C5 as stated fails in three ways. With both strings malformed the message names
  \<open>requestBody\<close> only, the body being checked first. Without a method the message is
  \<open>HTTP method is required\<close>. And the empty string, which is not JSON text, is taken as no
  body and no headers at all: the request goes out.
\<close>

theorem invalid_json_counterexample:
  \<open>JSON_parse test_platform ''{"invalid": json}'' =
     Inl (Error ''Unexpected token j in JSON at position 12'') \<and>
   webhookJob_invoke test_platform
     ((request_to ''POST'' ''https://api.example.com/users'')
        \<lparr>requestBody := Some ''{"invalid": json}'',
         requestHeaders := Some ''{"invalid": json}''\<rparr>) mockContext =
     ([], Inl (Error ''Invalid JSON in requestBody: Unexpected token j in JSON at position 12'')) \<and>
   \<not> str_includes ''Invalid JSON in requestBody: Unexpected token j in JSON at position 12''
         ''Invalid JSON in requestHeaders'' \<and>
   webhookJob_invoke test_platform
     ((request_to ''POST'' ''https://api.example.com/users'')
        \<lparr>http_method := None, requestBody := Some ''{"invalid": json}''\<rparr>) mockContext =
     ([], Inl (Error ''HTTP method is required'')) \<and>
   JSON_parse test_platform '''' = Inl (Error ''Unexpected end of JSON input'') \<and>
   webhookJob_invoke test_platform
     ((request_to ''POST'' ''https://api.example.com/users'')
        \<lparr>requestBody := Some '''', requestHeaders := Some ''''\<rparr>) mockContext =
     ([Request ''https://api.example.com/users''
         \<lparr>opt_method = ''POST'',
          opt_headers = [(''User-Agent'', JStr ''sgnl-generic-webhook/1.0.0''),
                         (''X-API-Key'', JStr ''test-api-key-123456'')],
          opt_body = None\<rparr>],
      Inr [(''status'', JStr ''success''), (''status_code'', JNum 200),
           (''body'', JStr ''{"success": true}''),
           (''headers'', JObj [(''content-type'', JStr ''application/json'')]),
           (''url'', JStr ''https://api.example.com/users''),
           (''method'', JStr ''POST''),
           (''processed_at'', JStr ''2024-01-15T10:30:00.000Z'')])\<close>
  by (simp add: job_defs test_defs request_to_def)

section \<open>The body and its content type\<close>

text \<open>
  Claim C7, as amended. Let the method and the address be non-empty, \<open>requestBody\<close> a
  non-empty string of valid JSON, and \<open>requestHeaders\<close> absent, empty or valid JSON with the
  members \<open>custom\<close>. Then \<open>webhookJob.invoke\<close> sends a request whose body is the original
  string, whatever the method is (\<open>GET\<close> included). \<open>Content-Type: application/json\<close> is set
  first and the custom headers are merged over it: the request's \<open>Content-Type\<close> is the
  custom member of exactly that name if there is one, else \<open>application/json\<close>, and
  every other custom member, one named \<open>content-type\<close> too, stands beside it in the
  request's headers under its own name (unless it is the header of the authentication
  step).
\<close>

theorem body_and_content_type:
  assumes m: "truthy_val (http_method p) = Some m"
      and a: "truthy_val (address p) = Some a"
      and rb: "truthy_val (requestBody p) = Some rb"
      and valid: "JSON_parse pf rb = Inr v"
      and custom: "(truthy_val (requestHeaders p) = None \<and> custom = []) \<or>
                   (\<exists>rh c. truthy_val (requestHeaders p) = Some rh \<and>
                           JSON_parse pf rh = Inr c \<and> custom = own_props c)"
  shows "\<exists>url opts.
           fst (webhookJob_invoke pf p ctx) = [Request url opts] \<and>
           opt_method opts = toUpperCase m \<and>
           opt_body opts = Some rb \<and>
           get_prop (opt_headers opts) ''Content-Type'' =
             (case map_of (rev custom) ''Content-Type'' of
                Some x \<Rightarrow> x | None \<Rightarrow> JStr ''application/json'') \<and>
           (\<forall>k x. map_of (rev custom) k = Some x \<and> k \<noteq> ''Authorization'' \<and>
                  k \<noteq> ''X-API-Key'' \<longrightarrow> get_prop (opt_headers opts) k = x)"
proof -
  from target_url_ok [OF m a] obtain url where t: "target_url p = Inr (m, url)"
    by blast
  define h0 where "h0 = [(''User-Agent'', JStr ''sgnl-generic-webhook/1.0.0''),
                         (''Content-Type'', JStr ''application/json'')]"
  have o1: "add_body pf p
              \<lparr>opt_method = toUpperCase m,
               opt_headers = [(''User-Agent'', JStr ''sgnl-generic-webhook/1.0.0'')],
               opt_body = None\<rparr> =
            Inr \<lparr>opt_method = toUpperCase m, opt_headers = h0, opt_body = Some rb\<rparr>"
    by (simp add: add_body_def rb valid h0_def)
  obtain merged where
    b: "build_options pf p ctx m =
          Inr \<lparr>opt_method = toUpperCase m, opt_headers = apply_auth (secrets ctx) merged,
               opt_body = Some rb\<rparr>" and
    mg: "\<And>k. get_prop merged k =
           (case map_of (rev custom) k of Some x \<Rightarrow> x | None \<Rightarrow> get_prop h0 k)"
  proof (cases "truthy_val (requestHeaders p)")
    case None
    with custom have "custom = []" by auto
    with None show ?thesis
      by (intro that [of h0]) (simp_all add: build_options_def o1 add_headers_def)
  next
    case (Some rh)
    with custom obtain c where c: "JSON_parse pf rh = Inr c" "custom = own_props c"
      by auto
    with Some show ?thesis
      by (intro that [of "Object_assign h0 c"])
         (simp_all add: build_options_def o1 add_headers_def get_prop_Object_assign)
  qed
  have sent: "fst (webhookJob_invoke pf p ctx) =
      [Request url \<lparr>opt_method = toUpperCase m, opt_headers = apply_auth (secrets ctx) merged,
                    opt_body = Some rb\<rparr>]"
    by (simp add: webhookJob_invoke_def t b)
  have ct: "get_prop h0 ''Content-Type'' = JStr ''application/json''"
    by (simp add: h0_def get_prop_def)
  show ?thesis
    by (intro exI conjI, rule sent)
       (auto simp: get_prop_apply_auth mg ct split: option.splits)
qed

theorem body_and_content_type_witness:
  \<open>(\<exists>url opts.
      fst (webhookJob_invoke test_platform
             ((request_to ''get'' ''https://api.example.com/users'')
                \<lparr>requestBody := Some ''{"test": true}'',
                 requestHeaders := Some ''{"Content-Type": "text/plain", "X-Custom": "value"}''\<rparr>)
             mockContext) = [Request url opts] \<and>
      opt_method opts = ''GET'' \<and>
      opt_body opts = Some ''{"test": true}'' \<and>
      get_prop (opt_headers opts) ''Content-Type'' = JStr ''text/plain'' \<and>
      get_prop (opt_headers opts) ''X-Custom'' = JStr ''value'') \<and>
   (\<exists>url opts.
      fst (webhookJob_invoke test_platform
             ((request_to ''get'' ''https://api.example.com/users'')
                \<lparr>requestBody := Some ''{"test": true}''\<rparr>)
             mockContext) = [Request url opts] \<and>
      opt_method opts = ''GET'' \<and>
      opt_body opts = Some ''{"test": true}'' \<and>
      get_prop (opt_headers opts) ''Content-Type'' = JStr ''application/json'')\<close>
proof -
  let ?good = \<open>''{"test": true}''\<close>
  let ?hdrs = \<open>''{"Content-Type": "text/plain", "X-Custom": "value"}''\<close>
  let ?custom = "[(''Content-Type'', JStr ''text/plain''), (''X-Custom'', JStr ''value'')]"
  let ?p1 = "(request_to ''get'' ''https://api.example.com/users'')
               \<lparr>requestBody := Some ?good, requestHeaders := Some ?hdrs\<rparr>"
  let ?p2 = "(request_to ''get'' ''https://api.example.com/users'')\<lparr>requestBody := Some ?good\<rparr>"
  have good: "JSON_parse test_platform ?good = Inr (JObj [(''test'', JBool True)])"
    by (simp add: test_defs)
  have hdrs: "JSON_parse test_platform ?hdrs = Inr (JObj ?custom)"
    by (simp add: test_defs)
  have up: "toUpperCase ''get'' = ''GET''"
    by (simp add: toUpperCase_def upper_char_def)
  have c1: "(truthy_val (requestHeaders ?p1) = None \<and> ?custom = []) \<or>
            (\<exists>rh c. truthy_val (requestHeaders ?p1) = Some rh \<and>
                    JSON_parse test_platform rh = Inr c \<and> ?custom = own_props c)"
    using hdrs by (simp add: request_to_def)
  have c2: "(truthy_val (requestHeaders ?p2) = None \<and> ([] :: obj) = []) \<or>
            (\<exists>rh c. truthy_val (requestHeaders ?p2) = Some rh \<and>
                    JSON_parse test_platform rh = Inr c \<and> [] = own_props c)"
    by (simp add: request_to_def)
  have m1: "truthy_val (http_method ?p1) = Some ''get''"
    and a1: "truthy_val (address ?p1) = Some ''https://api.example.com/users''"
    and b1: "truthy_val (requestBody ?p1) = Some ?good"
    by (simp_all add: request_to_def)
  have m2: "truthy_val (http_method ?p2) = Some ''get''"
    and a2: "truthy_val (address ?p2) = Some ''https://api.example.com/users''"
    and b2: "truthy_val (requestBody ?p2) = Some ?good"
    by (simp_all add: request_to_def)
  from body_and_content_type [OF m1 a1 b1 good c1, of mockContext]
  obtain url1 o1 where
    s1: "fst (webhookJob_invoke test_platform ?p1 mockContext) = [Request url1 o1]"
        "opt_method o1 = toUpperCase ''get''" "opt_body o1 = Some ?good" and
    t1: "get_prop (opt_headers o1) ''Content-Type'' =
           (case map_of (rev ?custom) ''Content-Type'' of
              Some x \<Rightarrow> x | None \<Rightarrow> JStr ''application/json'')" and
    k1: "\<forall>k x. map_of (rev ?custom) k = Some x \<and> k \<noteq> ''Authorization'' \<and>
               k \<noteq> ''X-API-Key'' \<longrightarrow> get_prop (opt_headers o1) k = x"
    by blast
  from k1 [rule_format, of "''X-Custom''" "JStr ''value''"]
  have x1: "get_prop (opt_headers o1) ''X-Custom'' = JStr ''value''"
    by simp
  from t1 have y1: "get_prop (opt_headers o1) ''Content-Type'' = JStr ''text/plain''"
    by simp
  from body_and_content_type [OF m2 a2 b2 good c2, of mockContext]
  obtain url2 o2 where
    s2: "fst (webhookJob_invoke test_platform ?p2 mockContext) = [Request url2 o2]"
        "opt_method o2 = toUpperCase ''get''" "opt_body o2 = Some ?good" and
    t2: "get_prop (opt_headers o2) ''Content-Type'' =
           (case map_of (rev ([] :: obj)) ''Content-Type'' of
              Some x \<Rightarrow> x | None \<Rightarrow> JStr ''application/json'')"
    by blast
  from t2 have y2: "get_prop (opt_headers o2) ''Content-Type'' = JStr ''application/json''"
    by simp
  have r1: "\<exists>url opts. fst (webhookJob_invoke test_platform ?p1 mockContext) = [Request url opts] \<and>
      opt_method opts = ''GET'' \<and> opt_body opts = Some ?good \<and>
      get_prop (opt_headers opts) ''Content-Type'' = JStr ''text/plain'' \<and>
      get_prop (opt_headers opts) ''X-Custom'' = JStr ''value''"
    using s1 x1 y1 up by auto
  have r2: "\<exists>url opts. fst (webhookJob_invoke test_platform ?p2 mockContext) = [Request url opts] \<and>
      opt_method opts = ''GET'' \<and> opt_body opts = Some ?good \<and>
      get_prop (opt_headers opts) ''Content-Type'' = JStr ''application/json''"
    using s2 y2 up by auto
  from r1 r2 show ?thesis
    by blast
qed


text \<open>
  Claim C7 as stated fails: with the custom header \<open>content-type: text/plain\<close> a
  \<open>Content-Type\<close> key is present, compared without case, and \<open>Content-Type:
  application/json\<close> is set all the same.
\<close>

theorem content_type_counterexample:
  \<open>webhookJob_invoke test_platform
     ((request_to ''POST'' ''https://api.example.com/users'')
        \<lparr>requestBody := Some ''{"test": true}'',
         requestHeaders := Some ''{"content-type": "text/plain"}''\<rparr>) mockContext =
   ([Request ''https://api.example.com/users''
       \<lparr>opt_method = ''POST'',
        opt_headers = [(''User-Agent'', JStr ''sgnl-generic-webhook/1.0.0''),
                       (''Content-Type'', JStr ''application/json''),
                       (''content-type'', JStr ''text/plain''),
                       (''X-API-Key'', JStr ''test-api-key-123456'')],
        opt_body = Some ''{"test": true}''\<rparr>],
    Inr [(''status'', JStr ''success''), (''status_code'', JNum 200),
         (''body'', JStr ''{"success": true}''),
         (''headers'', JObj [(''content-type'', JStr ''application/json'')]),
         (''url'', JStr ''https://api.example.com/users''),
         (''method'', JStr ''POST''),
         (''processed_at'', JStr ''2024-01-15T10:30:00.000Z'')])\<close>
  by (simp add: job_defs test_defs request_to_def)

section \<open>The halt handler\<close>

text \<open>
  Claim C8, as amended. For any parameters and context \<open>webhookJob.halt\<close> does nothing but
  return a result: status \<open>halted\<close>; the method, or \<open>unknown\<close> when it is absent or empty;
  the address, else the context's \<open>WEBHOOK_BASE_URL\<close>, else \<open>unknown\<close> (each passed over
  when absent or empty); the reason as given; the clock reading; \<open>cleanup_completed\<close> true;
  and \<open>partial_results_logged\<close> true exactly when \<open>context.partial_results\<close> is truthy,
  which every object is, the empty one too.
\<close>

theorem halt_always_reports:
  "\<exists>r. webhookJob_halt pf p ctx = ([], Inr r) \<and>
        get_prop r ''status'' = JStr ''halted'' \<and>
        get_prop r ''method'' =
          JStr (case truthy_val (http_method p) of Some m \<Rightarrow> m | None \<Rightarrow> ''unknown'') \<and>
        get_prop r ''url'' =
          JStr (case truthy_val (address p) of
                  Some a \<Rightarrow> a
                | None \<Rightarrow>
                    (case truthy_val (env ctx ''WEBHOOK_BASE_URL'') of
                       Some b \<Rightarrow> b | None \<Rightarrow> ''unknown'')) \<and>
        get_prop r ''reason'' = to_js (reason p) \<and>
        get_prop r ''halted_at'' = JStr (toISOString pf) \<and>
        get_prop r ''cleanup_completed'' = JBool True \<and>
        get_prop r ''partial_results_logged'' = JBool (truthy (partial_results ctx))"
  by (cases "http_method p"; cases "address p"; cases "env ctx ''WEBHOOK_BASE_URL''")
     (simp_all add: webhookJob_halt_def get_prop_def js_or_def)

theorem halt_always_reports_witness:
  "(\<exists>r. webhookJob_halt test_platform
           (halted ((request_to ''POST'' [])\<lparr>address := None\<rparr>) (Some ''cancellation''))
           (mockContext\<lparr>partial_results :=
              JObj [(''request_started'', JBool True), (''headers_sent'', JBool True)]\<rparr>) =
         ([], Inr r) \<and>
        get_prop r ''status'' = JStr ''halted'' \<and>
        get_prop r ''method'' = JStr ''POST'' \<and>
        get_prop r ''url'' = JStr ''https://api.example.com'' \<and>
        get_prop r ''reason'' = JStr ''cancellation'' \<and>
        get_prop r ''cleanup_completed'' = JBool True \<and>
        get_prop r ''partial_results_logged'' = JBool True) \<and>
   (\<exists>r. webhookJob_halt test_platform
           (halted ((request_to [] [])\<lparr>address := None\<rparr>) None)
           \<lparr>env = Map.empty, secrets = Map.empty, partial_results = JUndefined\<rparr> =
         ([], Inr r) \<and>
        get_prop r ''status'' = JStr ''halted'' \<and>
        get_prop r ''method'' = JStr ''unknown'' \<and>
        get_prop r ''url'' = JStr ''unknown'' \<and>
        get_prop r ''reason'' = JUndefined \<and>
        get_prop r ''cleanup_completed'' = JBool True \<and>
        get_prop r ''partial_results_logged'' = JBool False)"
  using halt_always_reports [of test_platform
          "halted ((request_to ''POST'' [])\<lparr>address := None\<rparr>) (Some ''cancellation'')"
          "mockContext\<lparr>partial_results :=
              JObj [(''request_started'', JBool True), (''headers_sent'', JBool True)]\<rparr>"]
        halt_always_reports [of test_platform
          "halted ((request_to [] [])\<lparr>address := None\<rparr>) None"
          "\<lparr>env = Map.empty, secrets = Map.empty, partial_results = JUndefined\<rparr>"]
  by (simp add: halted_def request_to_def mockContext_def) blast


text \<open>
  Claim C8 as stated fails on the tests' own context, whose \<open>partial_results\<close> is the
  empty object: present and empty, and reported as logged.
\<close>

theorem halt_empty_partial_results:
  "partial_results mockContext = JObj [] \<and>
   webhookJob_halt test_platform
     (halted (request_to ''GET'' ''https://api.example.com'') (Some ''timeout'')) mockContext =
   ([], Inr [(''status'', JStr ''halted''),
             (''method'', JStr ''GET''),
             (''url'', JStr ''https://api.example.com''),
             (''reason'', JStr ''timeout''),
             (''halted_at'', JStr ''2024-01-15T10:30:00.000Z''),
             (''cleanup_completed'', JBool True),
             (''partial_results_logged'', JBool True)])"
  by (simp add: webhookJob_halt_def js_or_def halted_def request_to_def test_defs)

section \<open>The script takes values as they come\<close>



section \<open>What the script's handlers do instead\<close>

text \<open>
  The theorems on classification, on the error handler and on the halt handler are about
  the bundle. The script classifies a response by the same test but reports it as a
  \<open>success\<close> flag, with no \<open>status\<close> and no \<open>error\<close> field; its \<open>error\<close> handler throws
  the error it was given; its \<open>halt\<close> handler reports status, reason and time only.
\<close>

lemma makeWebhookRequest_run:
  "\<exists>opts. makeWebhookRequest pf m url h b acc =
     ([Request url opts],
      case transport pf url opts of
        Inl e \<Rightarrow> Inl e
      | Inr res \<Rightarrow>
          Inr [(''statusCode'', JNum (of_nat (statusCode res))),
               (''body'', JStr (res_body res)),
               (''success'', JBool ((200 \<le> statusCode res \<and> statusCode res \<le> 299) \<or>
                                    int (statusCode res) \<in> set acc)),
               (''executedAt'', JStr (toISOString pf))])"
  by (simp add: makeWebhookRequest_def Let_def split: sum.splits)

lemma script_classifies_status:
  assumes sent: "fst (script_invoke pf p ctx) = [Request url opts]"
      and completes: "transport pf url opts = Inr res"
  shows "\<exists>r. snd (script_invoke pf p ctx) = Inr r \<and>
           get_prop r ''statusCode'' = JNum (of_nat (statusCode res)) \<and>
           get_prop r ''success'' =
             JBool ((200 \<le> statusCode res \<and> statusCode res < 300) \<or>
                    (\<exists>cs. s_acceptedStatusCodes p = Some cs \<and> int (statusCode res) \<in> set cs)) \<and>
           get_prop r ''status'' = JUndefined \<and> get_prop r ''error'' = JUndefined"
proof -
  obtain m where m: "truthy_val (s_method p) = Some m"
    using sent by (cases "truthy_val (s_method p)") (simp_all add: script_invoke_def)
  obtain a where a: "truthy_val (s_address p) = Some a"
    using sent m by (cases "truthy_val (s_address p)") (simp_all add: script_invoke_def)
  obtain h where h: "script_headers pf (s_requestHeaders p) = Inr h"
    using sent m a
    by (cases "script_headers pf (s_requestHeaders p)") (simp_all add: script_invoke_def)
  define acc where "acc = accepted_codes (s_acceptedStatusCodes p)"
  have run: "script_invoke pf p ctx =
      makeWebhookRequest pf m a (apply_auth (secrets ctx) h)
        (script_body pf (s_requestBody p)) acc"
    by (simp add: script_invoke_def m a h acc_def)
  from makeWebhookRequest_run [of pf m a "apply_auth (secrets ctx) h"
         "script_body pf (s_requestBody p)" acc]
  obtain opts' where
    mk: "script_invoke pf p ctx =
      ([Request a opts'],
       case transport pf a opts' of
         Inl e \<Rightarrow> Inl e
       | Inr res \<Rightarrow>
           Inr [(''statusCode'', JNum (of_nat (statusCode res))),
                (''body'', JStr (res_body res)),
                (''success'', JBool ((200 \<le> statusCode res \<and> statusCode res \<le> 299) \<or>
                                     int (statusCode res) \<in> set acc)),
                (''executedAt'', JStr (toISOString pf))])"
    unfolding run by blast
  from sent have same: "url = a" "opts = opts'"
    by (simp_all add: mk)
  have accd: "int c \<in> set acc \<longleftrightarrow>
              (\<exists>cs. s_acceptedStatusCodes p = Some cs \<and> int c \<in> set cs)" for c
    by (cases "s_acceptedStatusCodes p") (simp_all add: acc_def accepted_codes_def)
  have ok: "statusCode res \<le> 299 \<longleftrightarrow> statusCode res < 300"
    by arith
  show ?thesis
    using completes by (simp add: mk same [symmetric] get_prop_def accd ok)
qed

lemma script_error_rethrows:
  "script_error pf p ctx = ([], Inl (s_error p))"
  by (simp add: script_error_def)

lemma script_halt_reports:
  "\<exists>r. script_halt pf p ctx = ([], Inr r) \<and>
        get_prop r ''status'' = JStr ''halted'' \<and>
        get_prop r ''reason'' = to_js (s_reason p) \<and>
        get_prop r ''halted_at'' = JStr (toISOString pf) \<and>
        get_prop r ''method'' = JUndefined \<and> get_prop r ''url'' = JUndefined \<and>
        get_prop r ''cleanup_completed'' = JUndefined \<and>
        get_prop r ''partial_results_logged'' = JUndefined"
  by (simp add: script_halt_def get_prop_def)

end
